theory Spec2Isabelle
  imports Main
begin

section \<open>Strings\<close>

text \<open>
  A Python string is modelled as a \<^typ>\<open>string\<close> whose characters are the code
  points below 256. \<open>str.lower\<close> maps \<open>A\<close>..\<open>Z\<close> and the capital letters of the
  upper half (192 to 222 but 215) to the letter 32 places on, and leaves every other
  character alone; no character lowers to one of \<open>.\<close>, \<open>c\<close>, \<open>s\<close>, \<open>v\<close> but
  these and \<open>C\<close>, \<open>S\<close>, \<open>V\<close>, so the test \<open>name.lower().endswith(".csv")\<close> is
  decided by these definitions for every name.
\<close>

definition code :: "char \<Rightarrow> nat" where
  "code c = of_char c"

definition is_upper :: "char \<Rightarrow> bool" where
  "is_upper c =
     ((65 \<le> code c \<and> code c \<le> 90) \<or> (192 \<le> code c \<and> code c \<le> 222 \<and> code c \<noteq> 215))"

definition lower_char :: "char \<Rightarrow> char" where
  "lower_char c = (if is_upper c then char_of (code c + 32) else c)"

definition lower :: "string \<Rightarrow> string" where
  "lower s = map lower_char s"

definition endswith :: "string \<Rightarrow> string \<Rightarrow> bool" where
  "endswith s suffix =
     (length suffix \<le> length s \<and> drop (length s - length suffix) s = suffix)"

definition is_digit :: "char \<Rightarrow> bool" where
  "is_digit c = (48 \<le> code c \<and> code c \<le> 57)"

definition digit_val :: "char \<Rightarrow> nat" where
  "digit_val c = code c - 48"

definition digit_char :: "nat \<Rightarrow> char" where
  "digit_char n = char_of (48 + n)"

text \<open>The characters below 256 that the regular expression class \<open>\s\<close> accepts:
  the space, the controls 9 to 13 and 28 to 31, the next-line control 133 and the
  no-break space 160.\<close>

definition isspace :: "char \<Rightarrow> bool" where
  "isspace c =
     (code c = 32 \<or> (9 \<le> code c \<and> code c \<le> 13) \<or> (28 \<le> code c \<and> code c \<le> 31) \<or>
      code c = 133 \<or> code c = 160)"

text \<open>Decimal rendering of a natural number, as \<open>str(n)\<close> and \<open>%Y\<close> print it.\<close>

fun digits_of :: "nat \<Rightarrow> string" where
  "digits_of n =
     (if n < 10 then [digit_char n] else digits_of (n div 10) @ [digit_char (n mod 10)])"

declare digits_of.simps [simp del]

text \<open>Two-digit zero-padded rendering, as \<open>%d\<close>, \<open>%m\<close>, \<open>%H\<close> and \<open>%M\<close> print.\<close>

definition pad2 :: "nat \<Rightarrow> string" where
  "pad2 n = (if n < 10 then CHR ''0'' # digits_of n else digits_of n)"


section \<open>Exceptions and values\<close>

datatype exn =
    KeyError string
  | ValueError
  | FileNotFoundError string
  | NotADirectoryError string
  | PermissionError
  | EmptyDataError
  | ParserError
  | UnicodeEncodeError

text \<open>
  A cell of a table read by \<open>pd.read_csv\<close>: text, the missing value, or a scalar of
  a numeric column.
\<close>

datatype cell = Str string | NaN | Num int

record datetime =
  year :: nat
  month :: nat
  day :: nat
  hour :: nat
  minute :: nat

text \<open>What \<open>pd.to_datetime\<close> returns on a scalar: a timestamp or \<open>NaT\<close>.\<close>

datatype timestamp = NaT | Timestamp datetime


section \<open>The two formats\<close>

text \<open>
  \<^verbatim>\<open>DATE_FORMAT = "%A %B %d,%Y %I:%M %p GMT"\<close>
  \<^verbatim>\<open>OUTPUT_FORMAT = "%d.%m.%Y %H:%M"\<close>
\<close>

definition DATE_FORMAT :: string where
  "DATE_FORMAT = ''%A %B %d,%Y %I:%M %p GMT''"

definition OUTPUT_FORMAT :: string where
  "OUTPUT_FORMAT = ''%d.%m.%Y %H:%M''"


section \<open>Parsing with a format\<close>

text \<open>
  \<open>pd.to_datetime(value, format=fmt)\<close> turns the format into a regular expression, as
  \<open>strptime\<close> does: a directive becomes a group of alternatives tried in order, a run
  of whitespace becomes \<open>\s+\<close>, any other character stands for itself, and the
  expression is matched at the start of the text ignoring letter case, with
  backtracking. The model covers the directives the two formats use, in the C locale.
\<close>

datatype token = Directive char | Whitespace | Literal char

function tokenize :: "string \<Rightarrow> token list" where
  "tokenize [] = []"
| "tokenize (c # cs) =
     (if c = CHR ''%'' then (case cs of [] \<Rightarrow> [] | d # rest \<Rightarrow> Directive d # tokenize rest)
      else if isspace c then Whitespace # tokenize (dropWhile isspace cs)
      else Literal c # tokenize cs)"
  by pat_completeness auto
termination
  by (relation "measure length") (auto simp: length_dropWhile_le less_Suc_eq_le)

text \<open>The fields a match collects; the values before any directive is read are
  those of \<open>strptime\<close>: the first of January 1900, midnight.\<close>

record fields =
  f_Y :: nat
  f_B :: nat
  f_d :: nat
  f_I :: nat
  f_M :: nat
  f_p :: nat

definition no_fields :: fields where
  "no_fields = \<lparr>f_Y = 1900, f_B = 1, f_d = 1, f_I = 12, f_M = 0, f_p = 0\<rparr>"

text \<open>One alternative of a numeric group: two characters, or one.\<close>

definition between :: "char \<Rightarrow> char \<Rightarrow> char \<Rightarrow> bool" where
  "between lo hi c = (code lo \<le> code c \<and> code c \<le> code hi)"

definition two :: "(char \<Rightarrow> bool) \<Rightarrow> (char \<Rightarrow> bool) \<Rightarrow> string \<Rightarrow> (nat \<times> string) list" where
  "two P Q s =
     (case s of
        a # b # rest \<Rightarrow> if P a \<and> Q b then [(10 * digit_val a + digit_val b, rest)] else []
      | _ \<Rightarrow> [])"

definition one :: "(char \<Rightarrow> bool) \<Rightarrow> string \<Rightarrow> (nat \<times> string) list" where
  "one P s = (case s of a # rest \<Rightarrow> if P a then [(digit_val a, rest)] else [] | _ \<Rightarrow> [])"

definition name_alt :: "string \<Rightarrow> nat \<Rightarrow> string \<Rightarrow> (nat \<times> string) list" where
  "name_alt name v s =
     (if lower (take (length name) s) = name \<and> length name \<le> length s
      then [(v, drop (length name) s)] else [])"

text \<open>The names of a group, longest first, as the expression lists them.\<close>

definition weekdays :: "(string \<times> nat) list" where
  "weekdays =
     [(''wednesday'', 2), (''thursday'', 3), (''saturday'', 5), (''tuesday'', 1),
      (''monday'', 0), (''friday'', 4), (''sunday'', 6)]"

definition months :: "(string \<times> nat) list" where
  "months =
     [(''september'', 9), (''february'', 2), (''november'', 11), (''december'', 12),
      (''january'', 1), (''october'', 10), (''august'', 8), (''march'', 3), (''april'', 4),
      (''june'', 6), (''july'', 7), (''may'', 5)]"

definition am_pm :: "(string \<times> nat) list" where
  "am_pm = [(''am'', 0), (''pm'', 1)]"

definition names_alts :: "(string \<times> nat) list \<Rightarrow> string \<Rightarrow> (nat \<times> string) list" where
  "names_alts names s = concat (map (\<lambda>(name, v). name_alt name v s) names)"

text \<open>
  The alternatives of a directive at the start of \<open>s\<close>, in the order the expression
  tries them, each with the value read and the text left:
  \<^verbatim>\<open>%d  3[0-1]|[1-2]\d|0[1-9]|[1-9]| [1-9]\<close>
  \<^verbatim>\<open>%Y  \d\d\d\d\<close>
  \<^verbatim>\<open>%I  1[0-2]|0[1-9]|[1-9]\<close>
  \<^verbatim>\<open>%M  [0-5]\d|\d\<close>
\<close>

definition alts :: "char \<Rightarrow> string \<Rightarrow> (nat \<times> string) list" where
  "alts d s =
     (if d = CHR ''A'' then names_alts weekdays s
      else if d = CHR ''B'' then names_alts months s
      else if d = CHR ''p'' then names_alts am_pm s
      else if d = CHR ''d'' then
        two (between CHR ''3'' CHR ''3'') (between CHR ''0'' CHR ''1'') s @
        two (between CHR ''1'' CHR ''2'') is_digit s @
        two (between CHR ''0'' CHR ''0'') (between CHR ''1'' CHR ''9'') s @
        one (between CHR ''1'' CHR ''9'') s @
        (case s of a # rest \<Rightarrow> if a = CHR '' '' then one (between CHR ''1'' CHR ''9'') rest else []
         | _ \<Rightarrow> [])
      else if d = CHR ''Y'' then
        (case s of
           a # b # c # e # rest \<Rightarrow>
             if is_digit a \<and> is_digit b \<and> is_digit c \<and> is_digit e
             then [(1000 * digit_val a + 100 * digit_val b + 10 * digit_val c + digit_val e, rest)]
             else []
         | _ \<Rightarrow> [])
      else if d = CHR ''I'' then
        two (between CHR ''1'' CHR ''1'') (between CHR ''0'' CHR ''2'') s @
        two (between CHR ''0'' CHR ''0'') (between CHR ''1'' CHR ''9'') s @
        one (between CHR ''1'' CHR ''9'') s
      else if d = CHR ''M'' then
        two (between CHR ''0'' CHR ''5'') is_digit s @ one is_digit s
      else [])"

definition assign :: "char \<Rightarrow> nat \<Rightarrow> fields \<Rightarrow> fields" where
  "assign d v f =
     (if d = CHR ''B'' then f\<lparr>f_B := v\<rparr>
      else if d = CHR ''p'' then f\<lparr>f_p := v\<rparr>
      else if d = CHR ''d'' then f\<lparr>f_d := v\<rparr>
      else if d = CHR ''Y'' then f\<lparr>f_Y := v\<rparr>
      else if d = CHR ''I'' then f\<lparr>f_I := v\<rparr>
      else if d = CHR ''M'' then f\<lparr>f_M := v\<rparr>
      else f)"

text \<open>\<open>\s+\<close> is greedy: the longest run first, then each shorter one down to one character.\<close>

fun spaces_alts :: "string \<Rightarrow> string list" where
  "spaces_alts [] = []"
| "spaces_alts (c # cs) = (if isspace c then spaces_alts cs @ [cs] else [])"

fun first_some :: "('a \<Rightarrow> 'b option) \<Rightarrow> 'a list \<Rightarrow> 'b option" where
  "first_some k [] = None"
| "first_some k (x # xs) = (case k x of Some r \<Rightarrow> Some r | None \<Rightarrow> first_some k xs)"

text \<open>The match of the expression at the start of the text: the first way through
  the alternatives that gets to the end of the expression, with the text left over.\<close>

fun regex_match :: "token list \<Rightarrow> string \<Rightarrow> fields \<Rightarrow> (fields \<times> string) option" where
  "regex_match [] s f = Some (f, s)"
| "regex_match (Literal c # ts) s f =
     (case s of
        [] \<Rightarrow> None
      | a # rest \<Rightarrow> if lower_char a = lower_char c then regex_match ts rest f else None)"
| "regex_match (Whitespace # ts) s f = first_some (\<lambda>rest. regex_match ts rest f) (spaces_alts s)"
| "regex_match (Directive d # ts) s f =
     first_some (\<lambda>(v, rest). regex_match ts rest (assign d v f)) (alts d s)"

definition is_leap :: "nat \<Rightarrow> bool" where
  "is_leap y = (y mod 4 = 0 \<and> (y mod 100 \<noteq> 0 \<or> y mod 400 = 0))"

definition days_in_month :: "nat \<Rightarrow> nat \<Rightarrow> nat" where
  "days_in_month y m =
     (if m = 2 then (if is_leap y then 29 else 28)
      else if m = 4 \<or> m = 6 \<or> m = 9 \<or> m = 11 then 30 else 31)"

text \<open>The hour of the day from \<open>%I\<close> and \<open>%p\<close>: 12 AM is 0, 12 PM is 12.\<close>

definition hour24 :: "nat \<Rightarrow> nat \<Rightarrow> nat" where
  "hour24 i p = (if p = 0 then (if i = 12 then 0 else i) else (if i = 12 then 12 else i + 12))"

definition nat_strings :: "string list" where
  "nat_strings = [''NaT'', ''nat'', ''NAT'', ''nan'', ''NaN'', ''NAN'']"

definition strptime :: "string \<Rightarrow> string \<Rightarrow> exn + timestamp" where
  "strptime fmt s =
     (case regex_match (tokenize fmt) s no_fields of
        None \<Rightarrow> Inl ValueError
      | Some (f, rest) \<Rightarrow>
          if rest \<noteq> [] then Inl ValueError
          else
            let dt = \<lparr>year = f_Y f, month = f_B f, day = f_d f,
                      hour = hour24 (f_I f) (f_p f), minute = f_M f\<rparr>
            in if year dt = 0 \<or> day dt > days_in_month (year dt) (month dt) then Inl ValueError
               else Inr (Timestamp dt))"

text \<open>\<open>pd.to_datetime(raw_date, format=fmt)\<close> on one cell, at the local time \<open>now\<close>:
  a missing value and the texts that spell one give \<open>NaT\<close>; the texts \<open>now\<close> and
  \<open>today\<close> give the current time whatever the format; a number is not text of the
  format; any other text is parsed with the format.\<close>

definition to_datetime :: "datetime \<Rightarrow> cell \<Rightarrow> string \<Rightarrow> exn + timestamp" where
  "to_datetime now raw_date fmt =
     (case raw_date of
        NaN \<Rightarrow> Inr NaT
      | Num n \<Rightarrow> Inl ValueError
      | Str s \<Rightarrow>
          if s = [] \<or> s \<in> set nat_strings then Inr NaT
          else if s = ''now'' \<or> s = ''today'' then Inr (Timestamp now)
          else strptime fmt s)"


section \<open>Printing with a format\<close>

definition expand :: "char \<Rightarrow> datetime \<Rightarrow> string" where
  "expand d dt =
     (if d = CHR ''d'' then pad2 (day dt)
      else if d = CHR ''m'' then pad2 (month dt)
      else if d = CHR ''Y'' then digits_of (year dt)
      else if d = CHR ''H'' then pad2 (hour dt)
      else if d = CHR ''M'' then pad2 (minute dt)
      else if d = CHR ''%'' then ''%''
      else [CHR ''%'', d])"

fun format_datetime :: "string \<Rightarrow> datetime \<Rightarrow> string" where
  "format_datetime [] dt = []"
| "format_datetime [c] dt = [c]"
| "format_datetime (c # d # rest) dt =
     (if c = CHR ''%'' then expand d dt @ format_datetime rest dt
      else c # format_datetime (d # rest) dt)"

text \<open>\<open>original_dt.strftime(fmt)\<close>; \<open>NaT\<close> does not support it and raises.\<close>

definition strftime :: "timestamp \<Rightarrow> string \<Rightarrow> exn + string" where
  "strftime original_dt fmt =
     (case original_dt of NaT \<Rightarrow> Inl ValueError | Timestamp dt \<Rightarrow> Inr (format_datetime fmt dt))"

text \<open>Lines 103 and 104 of \<open>fix_dates\<close>: the text to apply for one raw date.\<close>

definition date_str_of :: "datetime \<Rightarrow> cell \<Rightarrow> exn + string" where
  "date_str_of now raw_date =
     (case to_datetime now raw_date DATE_FORMAT of
        Inl e \<Rightarrow> Inl e
      | Inr original_dt \<Rightarrow> strftime original_dt OUTPUT_FORMAT)"


section \<open>Tables\<close>

text \<open>
  A \<open>DataFrame\<close>: its column names and its rows in order, each row giving the cells
  it has by column name. A cell a row lacks is the missing value.
\<close>

record dataframe =
  columns :: "string list"
  rows :: "(string \<times> cell) list list"

definition cell_at :: "(string \<times> cell) list \<Rightarrow> string \<Rightarrow> cell" where
  "cell_at r col = (case map_of r col of None \<Rightarrow> NaN | Some v \<Rightarrow> v)"

text \<open>\<open>pd.concat(frames, ignore_index=True)\<close>: the rows of the frames one after the
  other, over the union of their columns.\<close>

definition pd_concat :: "dataframe list \<Rightarrow> dataframe" where
  "pd_concat frames =
     \<lparr>columns = remdups (concat (map columns frames)), rows = concat (map rows frames)\<rparr>"

text \<open>\<open>df[col]\<close>: the column as a series, or \<open>KeyError\<close>.\<close>

definition getitem :: "dataframe \<Rightarrow> string \<Rightarrow> exn + cell list" where
  "getitem df col =
     (if col \<in> set (columns df) then Inr (map (\<lambda>r. cell_at r col) (rows df))
      else Inl (KeyError col))"

text \<open>\<open>df[mask]\<close>: the rows where the mask holds, in order.\<close>

definition select :: "dataframe \<Rightarrow> bool list \<Rightarrow> dataframe" where
  "select df msk = df\<lparr>rows := map fst (filter snd (zip (rows df) msk))\<rparr>"

text \<open>\<^verbatim>\<open>match = df[df["imgName"] == filename]["originalCreationDate"]\<close>\<close>

definition lookup :: "dataframe \<Rightarrow> string \<Rightarrow> exn + cell list" where
  "lookup df filename =
     (case getitem df ''imgName'' of
        Inl e \<Rightarrow> Inl e
      | Inr names \<Rightarrow>
          getitem (select df (map (\<lambda>c. c = Str filename) names)) ''originalCreationDate'')"

text \<open>Lines 97 to 104 of \<open>fix_dates\<close>: the text to apply to a file, \<open>None\<close> when
  no row matches, or the exception raised on the way.\<close>

definition date_str_for :: "datetime \<Rightarrow> dataframe \<Rightarrow> string \<Rightarrow> exn + string option" where
  "date_str_for now df filename =
     (case lookup df filename of
        Inl e \<Rightarrow> Inl e
      | Inr match \<Rightarrow>
          if match = [] then Inr None
          else (case date_str_of now (hd match) of Inl e \<Rightarrow> Inl e | Inr date_str \<Rightarrow> Inr (Some date_str)))"


section \<open>Reading a date text back\<close>

text \<open>
  \<open>filedate\<close> turns the text it is given into a time with the date parser of
  \<open>dateutil\<close> and its defaults (month first). The model covers the texts this
  program hands over, those \<open>OUTPUT_FORMAT\<close> prints: three numbers separated by dots,
  a space, and two numbers separated by a colon; any other text gives \<open>ValueError\<close>
  here. A number of more than two digits is the year as written, a year of one or two
  digits is taken within fifty years of the current one. Of the first two numbers the
  first is the month and the second the day, unless the first is above 12: then it is
  the day. A first number above 31 is the year, followed by month and day.
\<close>

definition number_of :: "string \<Rightarrow> nat" where
  "number_of s = foldl (\<lambda>n c. 10 * n + digit_val c) 0 s"

definition digits_then :: "char \<Rightarrow> string \<Rightarrow> (string \<times> string) option" where
  "digits_then sep s =
     (case dropWhile is_digit s of
        [] \<Rightarrow> None
      | c # rest \<Rightarrow> if takeWhile is_digit s \<noteq> [] \<and> c = sep then Some (takeWhile is_digit s, rest)
                   else None)"

definition convertyear :: "nat \<Rightarrow> nat \<Rightarrow> nat" where
  "convertyear this_year y =
     (let c = y + this_year div 100 * 100
      in if this_year + 50 \<le> c then c - 100 else if c + 50 < this_year then c + 100 else c)"

definition resolve_ymd :: "nat \<Rightarrow> string \<Rightarrow> string \<Rightarrow> string \<Rightarrow> nat \<times> nat \<times> nat" where
  "resolve_ymd this_year ta tb tc =
     (let a = number_of ta; b = number_of tb; c = number_of tc;
          y = (if 2 < length tc then c else convertyear this_year c)
      in if 31 < a then (convertyear this_year a, b, c)
         else if 12 < a then (y, b, a)
         else (y, a, b))"

definition dateutil_parse :: "nat \<Rightarrow> string \<Rightarrow> exn + datetime" where
  "dateutil_parse this_year s =
     (case digits_then CHR ''.'' s of
        None \<Rightarrow> Inl ValueError
      | Some (ta, s1) \<Rightarrow>
          (case digits_then CHR ''.'' s1 of
             None \<Rightarrow> Inl ValueError
           | Some (tb, s2) \<Rightarrow>
               (case digits_then CHR '' '' s2 of
                  None \<Rightarrow> Inl ValueError
                | Some (tc, s3) \<Rightarrow>
                    (case digits_then CHR '':'' s3 of
                       None \<Rightarrow> Inl ValueError
                     | Some (th, tm) \<Rightarrow>
                         if tm = [] \<or> \<not> list_all is_digit tm \<or> 2 < length ta \<or> 2 < length tb \<or>
                            2 < length th \<or> 2 < length tm
                         then Inl ValueError
                         else
                           (case resolve_ymd this_year ta tb tc of
                              (y, m, d) \<Rightarrow>
                                if y = 0 \<or> 9999 < y \<or> m = 0 \<or> 12 < m \<or> d = 0 \<or>
                                   days_in_month y m < d \<or> 23 < number_of th \<or> 59 < number_of tm
                                then Inl ValueError
                                else Inr \<lparr>year = y, month = m, day = d, hour = number_of th,
                                          minute = number_of tm\<rparr>)))))"


section \<open>The folder\<close>

text \<open>
  A file has its contents and its two timestamps, each a date and a time of day in
  local time. What the libraries and the platform do with the file is part of the
  environment: \<open>csv\<close> is what \<open>pd.read_csv\<close> returns on it (a table, or the exception
  raised), \<open>created_error\<close> and \<open>modified_error\<close> are the exceptions the platform
  raises when the attribute is set, if it does.
\<close>

record file_state =
  contents :: string
  created :: datetime
  modified :: datetime
  csv :: "exn + dataframe"
  created_error :: "exn option"
  modified_error :: "exn option"

text \<open>A directory: the names \<open>os.listdir\<close> returns, or the exception it raises on a
  directory that cannot be read, and the files by name. A listed name with no file is
  an entry that is gone by the time it is opened.\<close>

record directory =
  listing :: "string list"
  listdir_error :: "exn option"
  files :: "string \<rightharpoonup> file_state"

definition os_listdir :: "directory \<Rightarrow> exn + string list" where
  "os_listdir d = (case listdir_error d of Some e \<Rightarrow> Inl e | None \<Rightarrow> Inr (listing d))"

definition is_csv :: "string \<Rightarrow> bool" where
  "is_csv filename = endswith (lower filename) ''.csv''"

definition pd_read_csv :: "directory \<Rightarrow> string \<Rightarrow> exn + dataframe" where
  "pd_read_csv d path =
     (case files d path of None \<Rightarrow> Inl (FileNotFoundError path) | Some f \<Rightarrow> csv f)"

text \<open>\<open>filedate.File(path)\<close>, \<open>f.created = v\<close> and \<open>f.modified = v\<close>, in the year
  \<open>this_year\<close>: the text is read back, then the attribute is set to the time read.\<close>

definition filedate_File :: "directory \<Rightarrow> string \<Rightarrow> exn + file_state" where
  "filedate_File d path =
     (case files d path of None \<Rightarrow> Inl (FileNotFoundError path) | Some f \<Rightarrow> Inr f)"

definition set_created :: "nat \<Rightarrow> directory \<Rightarrow> string \<Rightarrow> string \<Rightarrow> exn + directory" where
  "set_created this_year d path v =
     (case files d path of
        None \<Rightarrow> Inl (FileNotFoundError path)
      | Some f \<Rightarrow>
          (case dateutil_parse this_year v of
             Inl e \<Rightarrow> Inl e
           | Inr t \<Rightarrow>
               (case created_error f of
                  Some e \<Rightarrow> Inl e
                | None \<Rightarrow> Inr (d\<lparr>files := (files d)(path \<mapsto> f\<lparr>created := t\<rparr>)\<rparr>))))"

definition set_modified :: "nat \<Rightarrow> directory \<Rightarrow> string \<Rightarrow> string \<Rightarrow> exn + directory" where
  "set_modified this_year d path v =
     (case files d path of
        None \<Rightarrow> Inl (FileNotFoundError path)
      | Some f \<Rightarrow>
          (case dateutil_parse this_year v of
             Inl e \<Rightarrow> Inl e
           | Inr t \<Rightarrow>
               (case modified_error f of
                  Some e \<Rightarrow> Inl e
                | None \<Rightarrow> Inr (d\<lparr>files := (files d)(path \<mapsto> f\<lparr>modified := t\<rparr>)\<rparr>))))"


section \<open>Output\<close>

text \<open>
  The lines the program prints, one constructor per \<open>print\<close> of the source; the
  arrow is the character U+2192:
  \<^verbatim>\<open>[INFO] Loaded metadata for {n} records from {k} CSV file(s).\<close>
  \<^verbatim>\<open>[INFO] Found {n} media file(s) with extensions: {extensions}\<close>
  \<^verbatim>\<open>[SKIP]  No metadata found for: {filename}\<close>
  \<^verbatim>\<open>[DRY-RUN] Would set {filename} -> {date_str}\<close>
  \<^verbatim>\<open>[OK]    Setting {filename} -> {date_str}\<close>
  \<^verbatim>\<open>[ERROR] {filename}: {exc}\<close>
  \<^verbatim>\<open>--- Done: {success} updated, {errors} errors ---\<close>
\<close>

datatype event =
    INFO_loaded nat nat
  | INFO_media nat "string set"
  | SKIP string
  | DRY_RUN string string
  | OK string string
  | ERROR string exn
  | DONE nat nat

text \<open>
  The platform of a run: \<open>clock\<close> gives the local time at which the entry of a name
  is processed, \<open>stdout\<close> the exception \<open>print\<close> raises on a line, if it does
  (\<open>UnicodeEncodeError\<close> where the encoding of the standard output has no code for a
  character of the line), and \<open>None\<close> when the line is written.
\<close>

record platform =
  clock :: "string \<Rightarrow> datetime"
  stdout :: "event \<Rightarrow> exn option"

definition print :: "platform \<Rightarrow> event \<Rightarrow> event list \<Rightarrow> exn + event list" where
  "print p ev printed = (case stdout p ev of Some e \<Rightarrow> Inl e | None \<Rightarrow> Inr (printed @ [ev]))"


section \<open>load_metadata\<close>

fun read_frames :: "directory \<Rightarrow> string list \<Rightarrow> exn + dataframe list" where
  "read_frames d [] = Inr []"
| "read_frames d (file # rest) =
     (if is_csv file then
        (case pd_read_csv d file of
           Inl e \<Rightarrow> Inl e
         | Inr frame \<Rightarrow>
             (case read_frames d rest of Inl e \<Rightarrow> Inl e | Inr frames \<Rightarrow> Inr (frame # frames)))
      else read_frames d rest)"

definition load_metadata :: "platform \<Rightarrow> string \<Rightarrow> directory \<Rightarrow> exn + dataframe \<times> event list" where
  "load_metadata p folder d =
     (case os_listdir d of
        Inl e \<Rightarrow> Inl e
      | Inr names \<Rightarrow>
          (case read_frames d names of
             Inl e \<Rightarrow> Inl e
           | Inr frames \<Rightarrow>
               if frames = []
               then Inl (FileNotFoundError (''No CSV metadata files found in: '' @ folder))
               else
                 let df = pd_concat frames
                 in (case print p (INFO_loaded (length (rows df)) (length frames)) [] of
                       Inl e \<Rightarrow> Inl e
                     | Inr printed \<Rightarrow> Inr (df, printed))))"


section \<open>Extensions and media files\<close>






section \<open>fix_dates\<close>

record run =
  folder :: directory
  success :: nat
  errors :: nat
  out :: "event list"

text \<open>How the \<open>try\<close> block of one entry ends: it runs to its end, leaves through
  \<open>continue\<close>, or raises, in a lookup, a date, a \<open>print\<close> or a call of
  \<open>filedate\<close>. What it printed and wrote before stays.\<close>

datatype flow = Normal | Continue | Raised exn

definition try_block :: "platform \<Rightarrow> bool \<Rightarrow> dataframe \<Rightarrow> string \<Rightarrow> run \<Rightarrow> flow \<times> run" where
  "try_block p dry_run df filename st =
     (case date_str_for (clock p filename) df filename of
        Inl e \<Rightarrow> (Raised e, st)
      | Inr None \<Rightarrow>
          (case print p (SKIP filename) (out st) of
             Inl e \<Rightarrow> (Raised e, st)
           | Inr printed \<Rightarrow> (Continue, st\<lparr>out := printed\<rparr>))
      | Inr (Some date_str) \<Rightarrow>
          if dry_run then
            (case print p (DRY_RUN filename date_str) (out st) of
               Inl e \<Rightarrow> (Raised e, st)
             | Inr printed \<Rightarrow> (Normal, st\<lparr>out := printed\<rparr>))
          else
            (case print p (OK filename date_str) (out st) of
               Inl e \<Rightarrow> (Raised e, st)
             | Inr printed \<Rightarrow>
                 let st1 = st\<lparr>out := printed\<rparr>; this_year = year (clock p filename)
                 in (case filedate_File (folder st1) filename of
                       Inl e \<Rightarrow> (Raised e, st1)
                     | Inr f \<Rightarrow>
                         (case set_created this_year (folder st1) filename date_str of
                            Inl e \<Rightarrow> (Raised e, st1)
                          | Inr d1 \<Rightarrow>
                              (case set_modified this_year d1 filename date_str of
                                 Inl e \<Rightarrow> (Raised e, st1\<lparr>folder := d1\<rparr>)
                               | Inr d2 \<Rightarrow> (Normal, st1\<lparr>folder := d2\<rparr>))))))"

text \<open>One entry of the loop. The first component is the exception that leaves the
  loop, if one does: the \<open>print\<close> of the handler is not guarded, and it comes before
  the error is counted.\<close>

definition loop_body ::
  "platform \<Rightarrow> bool \<Rightarrow> dataframe \<Rightarrow> string \<Rightarrow> run \<Rightarrow> exn option \<times> run" where
  "loop_body p dry_run df filename st =
     (if is_csv filename then (None, st)
      else
        (case try_block p dry_run df filename st of
           (Normal, st') \<Rightarrow> (None, st'\<lparr>success := success st' + 1\<rparr>)
         | (Continue, st') \<Rightarrow> (None, st')
         | (Raised exc, st') \<Rightarrow>
             (case print p (ERROR filename exc) (out st') of
                Inl e \<Rightarrow> (Some e, st')
              | Inr printed \<Rightarrow> (None, st'\<lparr>out := printed, errors := errors st' + 1\<rparr>))))"

fun fix_loop ::
  "platform \<Rightarrow> bool \<Rightarrow> dataframe \<Rightarrow> string list \<Rightarrow> run \<Rightarrow> exn option \<times> run" where
  "fix_loop p dry_run df [] st = (None, st)"
| "fix_loop p dry_run df (filename # rest) st =
     (case loop_body p dry_run df filename st of
        (Some e, st') \<Rightarrow> (Some e, st')
      | (None, st') \<Rightarrow> fix_loop p dry_run df rest st')"

definition start :: "directory \<Rightarrow> run" where
  "start d = \<lparr>folder = d, success = 0, errors = 0, out = []\<rparr>"

text \<open>\<open>fix_dates\<close> ends with the exception that left it, if one did, and the state
  it had reached.\<close>

definition fix_dates ::
  "platform \<Rightarrow> directory \<Rightarrow> dataframe \<Rightarrow> bool \<Rightarrow> exn option \<times> run" where
  "fix_dates p d df dry_run =
     (case os_listdir d of
        Inl e \<Rightarrow> (Some e, start d)
      | Inr names \<Rightarrow>
          (case fix_loop p dry_run df names (start d) of
             (Some e, st) \<Rightarrow> (Some e, st)
           | (None, st) \<Rightarrow>
               (case print p (DONE (success st) (errors st)) (out st) of
                  Inl e \<Rightarrow> (Some e, st)
                | Inr printed \<Rightarrow> (None, st\<lparr>out := printed\<rparr>))))"


section \<open>main\<close>



section \<open>Properties of a run, and the folders of the scenarios\<close>




fun errored :: "event \<Rightarrow> (string \<times> exn) list" where
  "errored (ERROR filename exc) = [(filename, exc)]"
| "errored ev = []"

text \<open>Every line can be printed.\<close>

definition prints_all :: "platform \<Rightarrow> bool" where
  "prints_all p = (\<forall>ev. stdout p ev = None)"

text \<open>Every error line, every summary line, every information line can be printed.\<close>

definition prints_errors :: "platform \<Rightarrow> bool" where
  "prints_errors p = (\<forall>filename exc. stdout p (ERROR filename exc) = None)"


definition prints_info :: "platform \<Rightarrow> bool" where
  "prints_info p =
     ((\<forall>n k. stdout p (INFO_loaded n k) = None) \<and>
      (\<forall>n extensions. stdout p (INFO_media n extensions) = None))"

text \<open>The entries a run has a date for: the entries that are no CSV file, match a
  row and have a date that parses, in listing order, each with the text to apply.\<close>

definition targets :: "platform \<Rightarrow> dataframe \<Rightarrow> string list \<Rightarrow> (string \<times> string) list" where
  "targets p df names =
     concat (map (\<lambda>n. if is_csv n then []
                       else (case date_str_for (clock p n) df n of
                               Inr (Some s) \<Rightarrow> [(n, s)] | _ \<Rightarrow> []))
               names)"



text \<open>The second directory is the first one but for the two timestamps of its files.\<close>

definition same_but_times :: "directory \<Rightarrow> directory \<Rightarrow> bool" where
  "same_but_times d d' =
     (listing d' = listing d \<and> listdir_error d' = listdir_error d \<and>
      (\<forall>n. case files d n of
             None \<Rightarrow> files d' n = None
           | Some f \<Rightarrow> \<exists>c m. files d' n = Some (f\<lparr>created := c, modified := m\<rparr>)))"

text \<open>
  The text of a date-time in the input format, as the export writes it: the full
  weekday name, the full month name, the day on two digits, a comma, the year on four
  digits, the hour of the 12-hour clock and the minute on two digits each, AM or PM,
  and GMT. The weekday is given by its number, Monday being 0.
\<close>

definition weekday_name :: "nat \<Rightarrow> string" where
  "weekday_name w =
     [''Monday'', ''Tuesday'', ''Wednesday'', ''Thursday'', ''Friday'', ''Saturday'', ''Sunday''] ! w"

definition month_name :: "nat \<Rightarrow> string" where
  "month_name m =
     [''January'', ''February'', ''March'', ''April'', ''May'', ''June'', ''July'', ''August'',
      ''September'', ''October'', ''November'', ''December''] ! (m - 1)"

definition hour12 :: "nat \<Rightarrow> nat" where
  "hour12 h = (if h mod 12 = 0 then 12 else h mod 12)"

definition pad4 :: "nat \<Rightarrow> string" where
  "pad4 n = replicate (4 - length (digits_of n)) CHR ''0'' @ digits_of n"

definition export_text :: "nat \<Rightarrow> datetime \<Rightarrow> string" where
  "export_text w dt =
     weekday_name w @ '' '' @ month_name (month dt) @ '' '' @ pad2 (day dt) @ '','' @
     pad4 (year dt) @ '' '' @ pad2 (hour12 (hour dt)) @ '':'' @ pad2 (minute dt) @ '' '' @
     (if hour dt < 12 then ''AM'' else ''PM'') @ '' GMT''"

text \<open>Day.month.year and hour:minute of the 24-hour clock: day, month, hour and
  minute on two digits, the year in decimal as it is.\<close>

definition output_text :: "datetime \<Rightarrow> string" where
  "output_text dt =
     pad2 (day dt) @ ''.'' @ pad2 (month dt) @ ''.'' @ digits_of (year dt) @ '' '' @
     pad2 (hour dt) @ '':'' @ pad2 (minute dt)"

text \<open>A date-time of the calendar, in the years 1 to 9999.\<close>

definition valid_datetime :: "datetime \<Rightarrow> bool" where
  "valid_datetime dt =
     (1 \<le> year dt \<and> year dt \<le> 9999 \<and> 1 \<le> month dt \<and> month dt \<le> 12 \<and> 1 \<le> day dt \<and>
      day dt \<le> days_in_month (year dt) (month dt) \<and> hour dt < 24 \<and> minute dt < 60)"

text \<open>The fields of a match are those of a month, a day, an hour of the 12-hour
  clock, a minute and one of AM and PM.\<close>

definition fields_in_range :: "fields \<Rightarrow> bool" where
  "fields_in_range f =
     (1 \<le> f_B f \<and> f_B f \<le> 12 \<and> 1 \<le> f_d f \<and> f_d f \<le> 31 \<and> 1 \<le> f_I f \<and> f_I f \<le> 12 \<and>
      f_M f < 60 \<and> f_p f < 2 \<and> f_Y f \<le> 9999)"

text \<open>
  The words of a text of the input format. A name is one of a list whatever the
  case of its letters; a number is written on one or two digits, a day also as a
  space and a digit, a year on four digits; a gap is one white-space character or more.
\<close>

definition name_text :: "(string \<times> nat) list \<Rightarrow> string \<Rightarrow> nat \<Rightarrow> bool" where
  "name_text names tok v = ((lower tok, v) \<in> set names)"

definition number_text :: "string \<Rightarrow> nat \<Rightarrow> bool" where
  "number_text tok v =
     (case tok of
        [a] \<Rightarrow> is_digit a \<and> v = digit_val a
      | [a, b] \<Rightarrow> is_digit a \<and> is_digit b \<and> v = 10 * digit_val a + digit_val b
      | _ \<Rightarrow> False)"

definition day_text :: "string \<Rightarrow> nat \<Rightarrow> bool" where
  "day_text tok v = (number_text tok v \<or> (case tok of [a, b] \<Rightarrow> a = CHR '' '' \<and> is_digit b \<and> v = digit_val b | _ \<Rightarrow> False))"

definition year_text :: "string \<Rightarrow> nat \<Rightarrow> bool" where
  "year_text tok v =
     (case tok of
        [a, b, c, e] \<Rightarrow>
          is_digit a \<and> is_digit b \<and> is_digit c \<and> is_digit e \<and>
          v = 1000 * digit_val a + 100 * digit_val b + 10 * digit_val c + digit_val e
      | _ \<Rightarrow> False)"

definition gap :: "string \<Rightarrow> bool" where
  "gap sp = (sp \<noteq> [] \<and> list_all isspace sp)"

text \<open>The folders of the scenarios: a photo, its metadata, a photo with a date that
  does not parse, a photo no row names, a photo with an accent in its name, and files
  that cannot be written or read.\<close>

definition new_year :: datetime where
  "new_year = \<lparr>year = 2024, month = 1, day = 1, hour = 0, minute = 0\<rparr>"

definition plain_file :: "string \<Rightarrow> file_state" where
  "plain_file c =
     \<lparr>contents = c, created = new_year, modified = new_year\<lparr>day := 2\<rparr>,
      csv = Inl ParserError, created_error = None, modified_error = None\<rparr>"

definition csv_file :: "exn + dataframe \<Rightarrow> file_state" where
  "csv_file r =
     \<lparr>contents = ''imgName,originalCreationDate'', created = new_year,
      modified = new_year\<lparr>day := 2\<rparr>, csv = r, created_error = None, modified_error = None\<rparr>"


definition table_row :: "string \<Rightarrow> string \<Rightarrow> (string \<times> cell) list" where
  "table_row n v = [(''imgName'', Str n), (''originalCreationDate'', Str v)]"

definition photo1_frame :: dataframe where
  "photo1_frame =
     \<lparr>columns = [''imgName'', ''originalCreationDate''],
      rows = [table_row ''photo1.jpg'' ''Sunday June 11,2023 09:15 AM GMT'']\<rparr>"

definition photo2_frame :: dataframe where
  "photo2_frame =
     \<lparr>columns = [''imgName'', ''originalCreationDate''],
      rows = [table_row ''photo2.jpg'' ''11/06/2023'',
              table_row ''photo1.jpg'' ''Monday January 02,2023 03:04 PM GMT'']\<rparr>"

definition names_only_frame :: dataframe where
  "names_only_frame = \<lparr>columns = [''imgName''], rows = [[(''imgName'', Str ''photo1.jpg'')]]\<rparr>"

definition cafe_jpg :: string where
  "cafe_jpg = [CHR ''c'', CHR ''a'', CHR ''f'', CHR 0xE9, CHR ''.'', CHR ''j'', CHR ''p'', CHR ''g'']"

definition cafe_frame :: dataframe where
  "cafe_frame =
     \<lparr>columns = [''imgName'', ''originalCreationDate''],
      rows = [table_row cafe_jpg ''11/06/2023'',
              table_row ''photo1.jpg'' ''Sunday June 11,2023 09:15 AM GMT'']\<rparr>"

definition photo1_folder :: directory where
  "photo1_folder =
     \<lparr>listing = [''photo1.jpg'', ''photo1.csv''], listdir_error = None,
      files = [''photo1.jpg'' \<mapsto> plain_file ''jpeg'', ''photo1.csv'' \<mapsto> csv_file (Inr photo1_frame)]\<rparr>"

definition mixed_folder :: directory where
  "mixed_folder =
     \<lparr>listing = [''photo2.jpg'', ''photo1.csv'', ''photo1.jpg'', ''PHOTO2.CSV'', ''other.png''],
      listdir_error = None,
      files = [''photo2.jpg'' \<mapsto> plain_file ''jpeg2'', ''photo1.csv'' \<mapsto> csv_file (Inr photo1_frame),
               ''photo1.jpg'' \<mapsto> plain_file ''jpeg1'', ''PHOTO2.CSV'' \<mapsto> csv_file (Inr photo2_frame),
               ''other.png'' \<mapsto> plain_file ''png'']\<rparr>"



definition names_only_folder :: directory where
  "names_only_folder =
     \<lparr>listing = [''photo1.jpg'', ''names.csv'', ''other.png''], listdir_error = None,
      files = [''photo1.jpg'' \<mapsto> plain_file ''jpeg'', ''names.csv'' \<mapsto> csv_file (Inr names_only_frame),
               ''other.png'' \<mapsto> plain_file ''png'']\<rparr>"

definition cafe_folder :: directory where
  "cafe_folder =
     \<lparr>listing = [cafe_jpg, ''cafe.csv'', ''photo1.jpg''], listdir_error = None,
      files = [cafe_jpg \<mapsto> plain_file ''jpeg2'', ''cafe.csv'' \<mapsto> csv_file (Inr cafe_frame),
               ''photo1.jpg'' \<mapsto> plain_file ''jpeg1'']\<rparr>"






text \<open>Two platforms at noon of a day of 2024: one whose standard output takes every
  line, and one whose standard output is encoded in ASCII, so that it takes a line
  when the line has no arrow and the names in it have no character from 128 on.\<close>

definition noon :: datetime where
  "noon = \<lparr>year = 2024, month = 5, day = 20, hour = 12, minute = 0\<rparr>"

definition ascii :: "string \<Rightarrow> bool" where
  "ascii s = list_all (\<lambda>c. code c < 128) s"

fun line_ascii :: "event \<Rightarrow> bool" where
  "line_ascii (INFO_loaded n k) = True"
| "line_ascii (INFO_media n extensions) = (\<forall>ext \<in> extensions. ascii ext)"
| "line_ascii (SKIP filename) = ascii filename"
| "line_ascii (DRY_RUN filename date_str) = False"
| "line_ascii (OK filename date_str) = False"
| "line_ascii (ERROR filename exc) = ascii filename"
| "line_ascii (DONE n k) = True"

definition utf8_platform :: platform where
  "utf8_platform = \<lparr>clock = (\<lambda>filename. noon), stdout = (\<lambda>ev. None)\<rparr>"

definition ascii_platform :: platform where
  "ascii_platform =
     \<lparr>clock = (\<lambda>filename. noon),
      stdout = (\<lambda>ev. if line_ascii ev then None else Some UnicodeEncodeError)\<rparr>"

section \<open>Lookup\<close>

lemma mask_filter: "map fst (filter snd (zip xs (map P xs))) = filter P xs"
  by (induction xs) simp_all

lemma lookup_filter:
  assumes "''imgName'' \<in> set (columns df)" and "''originalCreationDate'' \<in> set (columns df)"
  shows "lookup df filename =
         Inr (map (\<lambda>r. cell_at r ''originalCreationDate'')
                (filter (\<lambda>r. cell_at r ''imgName'' = Str filename) (rows df)))"
proof -
  have "map fst (filter snd (zip (rows df)
          (map (\<lambda>c. c = Str filename) (map (\<lambda>r. cell_at r ''imgName'') (rows df))))) =
        filter (\<lambda>r. cell_at r ''imgName'' = Str filename) (rows df)"
    using mask_filter [of "rows df" "\<lambda>r. cell_at r ''imgName'' = Str filename"]
    by (simp add: comp_def)
  with assms show ?thesis
    by (simp add: lookup_def getitem_def select_def)
qed

lemma read_frames_order:
  "read_frames d names = Inr frames \<Longrightarrow> map Inr frames = map (pd_read_csv d) (filter is_csv names)"
  by (induction names arbitrary: frames) (auto split: if_splits sum.splits)

lemma find_filter_Nil: "find P xs = None \<Longrightarrow> filter P xs = []"
  by (induction xs) (auto split: if_splits)

lemma find_filter_hd: "find P xs = Some x \<Longrightarrow> filter P xs \<noteq> [] \<and> hd (filter P xs) = x"
  by (induction xs) (auto split: if_splits)

lemma date_str_for_find:
  assumes "''imgName'' \<in> set (columns df)" and "''originalCreationDate'' \<in> set (columns df)"
  shows "date_str_for now df filename =
         (case find (\<lambda>r. cell_at r ''imgName'' = Str filename) (rows df) of
            None \<Rightarrow> Inr None
          | Some r \<Rightarrow>
              (case date_str_of now (cell_at r ''originalCreationDate'') of
                 Inl e \<Rightarrow> Inl e | Inr s \<Rightarrow> Inr (Some s)))"
proof (cases "find (\<lambda>r. cell_at r ''imgName'' = Str filename) (rows df)")
  case None
  with assms show ?thesis
    by (simp add: date_str_for_def lookup_filter find_filter_Nil)
next
  case (Some r)
  from find_filter_hd [OF Some] assms show ?thesis
    by (simp add: date_str_for_def lookup_filter Some hd_map)
qed

lemma os_listdir_Inr: "os_listdir d = Inr names \<Longrightarrow> names = listing d \<and> listdir_error d = None"
  by (auto simp: os_listdir_def split: option.splits)

lemma load_metadata_Inr:
  assumes "load_metadata p path d = Inr (df, evs)"
  shows "\<exists>frames. read_frames d (listing d) = Inr frames \<and> frames \<noteq> [] \<and> df = pd_concat frames \<and>
           listdir_error d = None \<and>
           evs = [INFO_loaded (length (rows df)) (length frames)]"
  using assms
  by (auto simp: load_metadata_def print_def Let_def
      split: sum.splits if_splits option.splits dest!: os_listdir_Inr)


section \<open>Which row gives the date\<close>

text \<open>
  C5. The table \<open>load_metadata\<close> returns holds the rows of the CSV files of the
  folder, the files in listing order and the rows of each in its own order. The
  date of an entry is that of the first of these rows whose \<open>imgName\<close> cell is the
  text of the entry's name, character for character; no row such, the entry has no
  date. The table has the two columns that \<open>fix_dates\<close> documents it to have.
\<close>

theorem C5_first_exact_match_decides:
  assumes "load_metadata p path d = Inr (df, evs)"
    and "''imgName'' \<in> set (columns df)" and "''originalCreationDate'' \<in> set (columns df)"
  shows "\<exists>frames. map Inr frames = map (pd_read_csv d) (filter is_csv (listing d)) \<and>
           rows df = concat (map rows frames) \<and>
           date_str_for now df filename =
             (case find (\<lambda>r. cell_at r ''imgName'' = Str filename) (concat (map rows frames)) of
                None \<Rightarrow> Inr None
              | Some r \<Rightarrow>
                  (case date_str_of now (cell_at r ''originalCreationDate'') of
                     Inl e \<Rightarrow> Inl e | Inr s \<Rightarrow> Inr (Some s)))"
proof -
  from load_metadata_Inr [OF assms(1)] obtain frames where
    fr: "read_frames d (listing d) = Inr frames" and df: "df = pd_concat frames"
    by blast
  have r: "rows df = concat (map rows frames)"
    by (simp add: df pd_concat_def)
  from date_str_for_find [OF assms(2,3), of now filename] r read_frames_order [OF fr]
  show ?thesis by auto
qed

theorem C5_first_exact_match_decides_witness:
  "load_metadata utf8_platform ''/photos'' mixed_folder =
     Inr (pd_concat [photo1_frame, photo2_frame], [INFO_loaded 3 2]) \<and>
   (\<exists>frames. map Inr frames = map (pd_read_csv mixed_folder) (filter is_csv (listing mixed_folder)) \<and>
           rows (pd_concat [photo1_frame, photo2_frame]) = concat (map rows frames) \<and>
           date_str_for noon (pd_concat [photo1_frame, photo2_frame]) ''photo1.jpg'' =
             (case find (\<lambda>r. cell_at r ''imgName'' = Str ''photo1.jpg'') (concat (map rows frames)) of
                None \<Rightarrow> Inr None
              | Some r \<Rightarrow>
                  (case date_str_of noon (cell_at r ''originalCreationDate'') of
                     Inl e \<Rightarrow> Inl e | Inr s \<Rightarrow> Inr (Some s)))) \<and>
   date_str_for noon (pd_concat [photo1_frame, photo2_frame]) ''photo1.jpg'' =
     Inr (Some ''11.06.2023 09:15'') \<and>
   date_str_for noon (pd_concat [photo1_frame, photo2_frame]) ''Photo1.jpg'' = Inr None"
proof -
  let ?df = "pd_concat [photo1_frame, photo2_frame]"
  have a: "load_metadata utf8_platform ''/photos'' mixed_folder = Inr (?df, [INFO_loaded 3 2])"
    by code_simp
  have b: "''imgName'' \<in> set (columns ?df)" by code_simp
  have c: "''originalCreationDate'' \<in> set (columns ?df)" by code_simp
  have d: "date_str_for noon ?df ''photo1.jpg'' = Inr (Some ''11.06.2023 09:15'')" by code_simp
  have e: "date_str_for noon ?df ''Photo1.jpg'' = Inr None" by code_simp
  from C5_first_exact_match_decides [OF a b c, of noon "''photo1.jpg''"] a d e
  show ?thesis by blast
qed


section \<open>One entry of the loop\<close>

lemma print_Inr: "stdout p ev = None \<Longrightarrow> print p ev printed = Inr (printed @ [ev])"
  by (simp add: print_def)

lemma print_Inl: "stdout p ev = Some e \<Longrightarrow> print p ev printed = Inl e"
  by (simp add: print_def)


lemma loop_body_csv: "is_csv n \<Longrightarrow> loop_body p dry df n st = (None, st)"
  by (simp add: loop_body_def)

lemma loop_body_skip:
  "\<not> is_csv n \<Longrightarrow> date_str_for (clock p n) df n = Inr None \<Longrightarrow> stdout p (SKIP n) = None \<Longrightarrow>
   loop_body p dry df n st = (None, st\<lparr>out := out st @ [SKIP n]\<rparr>)"
  by (simp add: loop_body_def try_block_def print_Inr)


lemma loop_body_dry:
  "\<not> is_csv n \<Longrightarrow> date_str_for (clock p n) df n = Inr (Some s) \<Longrightarrow>
   stdout p (DRY_RUN n s) = None \<Longrightarrow>
   loop_body p True df n st = (None, st\<lparr>out := out st @ [DRY_RUN n s], success := success st + 1\<rparr>)"
  by (simp add: loop_body_def try_block_def print_Inr)




section \<open>What a run changes in the folder\<close>

lemma same_but_times_None:
  assumes "same_but_times d d'" and "files d n = None"
  shows "files d' n = None"
proof -
  from assms(1) have "case files d n of None \<Rightarrow> files d' n = None
      | Some f \<Rightarrow> \<exists>c m. files d' n = Some (f\<lparr>created := c, modified := m\<rparr>)"
    unfolding same_but_times_def by blast
  with assms(2) show ?thesis by simp
qed

lemma same_but_times_Some:
  assumes "same_but_times d d'" and "files d n = Some f"
  shows "\<exists>c m. files d' n = Some (f\<lparr>created := c, modified := m\<rparr>)"
proof -
  from assms(1) have "case files d n of None \<Rightarrow> files d' n = None
      | Some f \<Rightarrow> \<exists>c m. files d' n = Some (f\<lparr>created := c, modified := m\<rparr>)"
    unfolding same_but_times_def by blast
  with assms(2) show ?thesis by simp
qed

lemma same_but_times_listing:
  "same_but_times d d' \<Longrightarrow> listing d' = listing d \<and> listdir_error d' = listdir_error d"
  by (simp add: same_but_times_def)

lemma same_but_timesI:
  assumes "listing d' = listing d \<and> listdir_error d' = listdir_error d"
    and "\<And>n. files d n = None \<Longrightarrow> files d' n = None"
    and "\<And>n f. files d n = Some f \<Longrightarrow> \<exists>c m. files d' n = Some (f\<lparr>created := c, modified := m\<rparr>)"
  shows "same_but_times d d'"
proof -
  have "case files d n of None \<Rightarrow> files d' n = None
      | Some f \<Rightarrow> \<exists>c m. files d' n = Some (f\<lparr>created := c, modified := m\<rparr>)" for n
  proof (cases "files d n")
    case None
    with assms(2) show ?thesis by simp
  next
    case (Some f)
    with assms(3) [OF Some] show ?thesis by simp
  qed
  with assms(1) show ?thesis
    unfolding same_but_times_def by blast
qed

lemma same_but_times_refl: "same_but_times d d"
proof (rule same_but_timesI)
  fix n f
  assume "files d n = Some f"
  then have "files d n = Some (f\<lparr>created := created f, modified := modified f\<rparr>)" by simp
  then show "\<exists>c m. files d n = Some (f\<lparr>created := c, modified := m\<rparr>)" by blast
qed simp_all

lemma same_but_times_trans:
  assumes "same_but_times a b" and "same_but_times b c"
  shows "same_but_times a c"
proof (rule same_but_timesI)
  show "listing c = listing a \<and> listdir_error c = listdir_error a"
    using assms by (simp add: same_but_times_def)
next
  fix n
  assume "files a n = None"
  then show "files c n = None"
    using assms same_but_times_None by blast
next
  fix n f
  assume "files a n = Some f"
  with assms(1) obtain x y where b: "files b n = Some (f\<lparr>created := x, modified := y\<rparr>)"
    using same_but_times_Some by blast
  with assms(2) obtain x' y' where
    "files c n = Some (f\<lparr>created := x, modified := y\<rparr>\<lparr>created := x', modified := y'\<rparr>)"
    using same_but_times_Some by blast
  then have "files c n = Some (f\<lparr>created := x', modified := y'\<rparr>)" by simp
  then show "\<exists>x y. files c n = Some (f\<lparr>created := x, modified := y\<rparr>)" by blast
qed

lemma set_created_same:
  assumes "set_created y d p v = Inr d1"
  shows "same_but_times d d1"
proof -
  from assms obtain f t where f: "files d p = Some f"
    and d1: "d1 = d\<lparr>files := (files d)(p \<mapsto> f\<lparr>created := t\<rparr>)\<rparr>"
    by (auto simp: set_created_def split: option.splits sum.splits)
  show ?thesis
  proof (rule same_but_timesI)
    show "listing d1 = listing d \<and> listdir_error d1 = listdir_error d" by (simp add: d1)
  next
    fix n
    assume "files d n = None"
    with f show "files d1 n = None" by (auto simp: d1)
  next
    fix n g
    assume g: "files d n = Some g"
    show "\<exists>c m. files d1 n = Some (g\<lparr>created := c, modified := m\<rparr>)"
    proof (cases "n = p")
      case True
      with f g have "files d1 n = Some (g\<lparr>created := t, modified := modified g\<rparr>)"
        by (simp add: d1)
      then show ?thesis by blast
    next
      case False
      with g have "files d1 n = Some (g\<lparr>created := created g, modified := modified g\<rparr>)"
        by (simp add: d1)
      then show ?thesis by blast
    qed
  qed
qed

lemma set_modified_same:
  assumes "set_modified y d p v = Inr d1"
  shows "same_but_times d d1"
proof -
  from assms obtain f t where f: "files d p = Some f"
    and d1: "d1 = d\<lparr>files := (files d)(p \<mapsto> f\<lparr>modified := t\<rparr>)\<rparr>"
    by (auto simp: set_modified_def split: option.splits sum.splits)
  show ?thesis
  proof (rule same_but_timesI)
    show "listing d1 = listing d \<and> listdir_error d1 = listdir_error d" by (simp add: d1)
  next
    fix n
    assume "files d n = None"
    with f show "files d1 n = None" by (auto simp: d1)
  next
    fix n g
    assume g: "files d n = Some g"
    show "\<exists>c m. files d1 n = Some (g\<lparr>created := c, modified := m\<rparr>)"
    proof (cases "n = p")
      case True
      with f g have "files d1 n = Some (g\<lparr>created := created g, modified := t\<rparr>)"
        by (simp add: d1)
      then show ?thesis by blast
    next
      case False
      with g have "files d1 n = Some (g\<lparr>created := created g, modified := modified g\<rparr>)"
        by (simp add: d1)
      then show ?thesis by blast
    qed
  qed
qed

lemma set_created_other: "set_created y d p v = Inr d1 \<Longrightarrow> m \<noteq> p \<Longrightarrow> files d1 m = files d m"
  by (auto simp: set_created_def split: option.splits sum.splits)

lemma set_modified_other: "set_modified y d p v = Inr d1 \<Longrightarrow> m \<noteq> p \<Longrightarrow> files d1 m = files d m"
  by (auto simp: set_modified_def split: option.splits sum.splits)

text \<open>The folder after the \<open>try\<close> block of an entry.\<close>

lemma try_block_folder:
  "folder (snd (try_block p dry df n st)) = folder st \<or>
   (\<not> dry \<and> (\<exists>s. date_str_for (clock p n) df n = Inr (Some s) \<and>
      ((\<exists>d1. set_created (year (clock p n)) (folder st) n s = Inr d1 \<and>
          folder (snd (try_block p dry df n st)) = d1) \<or>
       (\<exists>d1 d2. set_created (year (clock p n)) (folder st) n s = Inr d1 \<and>
          set_modified (year (clock p n)) d1 n s = Inr d2 \<and>
          folder (snd (try_block p dry df n st)) = d2))))"
  by (auto simp: try_block_def print_def Let_def split: sum.splits option.splits)

lemma loop_body_folder_try:
  "folder (snd (loop_body p dry df n st)) =
   (if is_csv n then folder st else folder (snd (try_block p dry df n st)))"
proof (cases "is_csv n")
  case True
  then show ?thesis by (simp add: loop_body_def)
next
  case False
  obtain fl st' where t: "try_block p dry df n st = (fl, st')"
    by (cases "try_block p dry df n st")
  with False show ?thesis
    by (cases fl) (simp_all add: loop_body_def print_def split: option.splits)
qed

lemma loop_body_folder:
  "folder (snd (loop_body p dry df n st)) = folder st \<or>
   (\<not> dry \<and> \<not> is_csv n \<and> (\<exists>s. date_str_for (clock p n) df n = Inr (Some s) \<and>
      ((\<exists>d1. set_created (year (clock p n)) (folder st) n s = Inr d1 \<and>
          folder (snd (loop_body p dry df n st)) = d1) \<or>
       (\<exists>d1 d2. set_created (year (clock p n)) (folder st) n s = Inr d1 \<and>
          set_modified (year (clock p n)) d1 n s = Inr d2 \<and>
          folder (snd (loop_body p dry df n st)) = d2))))"
  using try_block_folder [of p dry df n st]
  by (cases "is_csv n") (simp_all add: loop_body_folder_try)

lemma loop_body_same: "same_but_times (folder st) (folder (snd (loop_body p dry df n st)))"
  using loop_body_folder [of p dry df n st]
  by (auto intro: same_but_times_refl set_created_same set_modified_same
      same_but_times_trans [OF set_created_same set_modified_same])

lemma loop_body_changes:
  assumes "files (folder (snd (loop_body p dry df n st))) m \<noteq> files (folder st) m"
  shows "m = n \<and> \<not> dry \<and> \<not> is_csv n \<and> (\<exists>s. date_str_for (clock p n) df n = Inr (Some s))"
proof -
  let ?y = "year (clock p n)"
  let ?d = "folder (snd (loop_body p dry df n st))"
  from loop_body_folder [of p dry df n st] assms
  have w: "\<not> dry \<and> \<not> is_csv n \<and> (\<exists>s. date_str_for (clock p n) df n = Inr (Some s) \<and>
      ((\<exists>d1. set_created ?y (folder st) n s = Inr d1 \<and> ?d = d1) \<or>
       (\<exists>d1 d2. set_created ?y (folder st) n s = Inr d1 \<and> set_modified ?y d1 n s = Inr d2 \<and>
          ?d = d2)))"
    by auto
  have "m = n"
  proof (rule ccontr)
    assume ne: "m \<noteq> n"
    from w obtain s where
      "(\<exists>d1. set_created ?y (folder st) n s = Inr d1 \<and> ?d = d1) \<or>
       (\<exists>d1 d2. set_created ?y (folder st) n s = Inr d1 \<and> set_modified ?y d1 n s = Inr d2 \<and>
          ?d = d2)"
      by blast
    then have "files ?d m = files (folder st) m"
    proof
      assume "\<exists>d1. set_created ?y (folder st) n s = Inr d1 \<and> ?d = d1"
      then show ?thesis using set_created_other [OF _ ne] by auto
    next
      assume "\<exists>d1 d2. set_created ?y (folder st) n s = Inr d1 \<and> set_modified ?y d1 n s = Inr d2 \<and>
          ?d = d2"
      then obtain d1 d2 where a: "set_created ?y (folder st) n s = Inr d1"
        and b: "set_modified ?y d1 n s = Inr d2" and c: "?d = d2"
        by blast
      from set_created_other [OF a ne] set_modified_other [OF b ne] c show ?thesis by simp
    qed
    with assms show False by simp
  qed
  with w show ?thesis by blast
qed

lemma fix_loop_step:
  "fix_loop p dry df (n # ns) st =
   (if fst (loop_body p dry df n st) = None then fix_loop p dry df ns (snd (loop_body p dry df n st))
    else loop_body p dry df n st)"
  by (cases "loop_body p dry df n st") (auto split: option.splits)

declare fix_loop.simps(2) [simp del]

lemma fix_loop_go:
  "fst (loop_body p dry df n st) = None \<Longrightarrow>
   fix_loop p dry df (n # ns) st = fix_loop p dry df ns (snd (loop_body p dry df n st))"
  by (auto simp: fix_loop_step)

lemma fix_loop_stop:
  "fst (loop_body p dry df n st) \<noteq> None \<Longrightarrow>
   fix_loop p dry df (n # ns) st = loop_body p dry df n st"
  by (auto simp: fix_loop_step)

lemma fix_loop_same: "same_but_times (folder st) (folder (snd (fix_loop p dry df ns st)))"
proof (induction ns arbitrary: st)
  case Nil
  show ?case by (simp add: same_but_times_refl)
next
  case (Cons n ns)
  show ?case
  proof (cases "fst (loop_body p dry df n st) = None")
    case True
    from same_but_times_trans [OF loop_body_same [of st p dry df n]
        Cons.IH [of "snd (loop_body p dry df n st)"]]
    show ?thesis by (simp add: fix_loop_go [OF True])
  next
    case False
    from loop_body_same [of st p dry df n] show ?thesis by (simp add: fix_loop_stop [OF False])
  qed
qed

lemma fix_loop_changes:
  "files (folder (snd (fix_loop p dry df ns st))) m \<noteq> files (folder st) m \<Longrightarrow>
   m \<in> set ns \<and> \<not> dry \<and> \<not> is_csv m \<and> (\<exists>s. date_str_for (clock p m) df m = Inr (Some s))"
proof (induction ns arbitrary: st)
  case Nil
  then show ?case by simp
next
  case (Cons n ns)
  let ?st = "snd (loop_body p dry df n st)"
  show ?case
  proof (cases "files (folder ?st) m = files (folder st) m")
    case same: True
    show ?thesis
    proof (cases "fst (loop_body p dry df n st) = None")
      case True
      from Cons.prems have "files (folder (snd (fix_loop p dry df ns ?st))) m \<noteq>
          files (folder st) m" by (simp add: fix_loop_go [OF True])
      with same have "files (folder (snd (fix_loop p dry df ns ?st))) m \<noteq>
          files (folder ?st) m" by simp
      from Cons.IH [OF this] show ?thesis by simp
    next
      case False
      from Cons.prems have "files (folder ?st) m \<noteq> files (folder st) m"
        by (simp add: fix_loop_stop [OF False])
      with same show ?thesis by simp
    qed
  next
    case False
    from loop_body_changes [OF False] show ?thesis by auto
  qed
qed

lemma folder_fix_dates:
  "folder (snd (fix_dates p d df dry)) =
   (case os_listdir d of
      Inl e \<Rightarrow> d
    | Inr names \<Rightarrow> folder (snd (fix_loop p dry df names (start d))))"
proof (cases "os_listdir d")
  case (Inl e)
  then show ?thesis by (simp add: fix_dates_def start_def)
next
  case (Inr names)
  obtain r st where f: "fix_loop p dry df names (start d) = (r, st)"
    by (cases "fix_loop p dry df names (start d)")
  with Inr show ?thesis
    by (cases r) (simp_all add: fix_dates_def print_def split: option.splits)
qed

lemma same_but_times_contents:
  assumes "same_but_times d d'"
  shows "map_option contents (files d' n) = map_option contents (files d n)"
proof (cases "files d n")
  case None
  with same_but_times_None [OF assms] show ?thesis by simp
next
  case (Some f)
  with same_but_times_Some [OF assms Some] show ?thesis by auto
qed

text \<open>
  C8. After a run the folder is the one before but for the two timestamps of its
  files: the listing, the files there are and the contents of each are the same. An
  entry whose name ends in \<open>.csv\<close>, in any letter case, is left by the loop before any
  lookup, and its file is as it was. A file that differs after the run is that of a
  listed entry that is no CSV file and has a date, in a run that is no preview. This
  holds of every run, also of one that an exception ends.
\<close>

theorem C8_only_timestamps_of_matched_files_change:
  "same_but_times d (folder (snd (fix_dates p d df dry_run))) \<and>
   (\<forall>n. map_option contents (files (folder (snd (fix_dates p d df dry_run))) n) =
        map_option contents (files d n)) \<and>
   (\<forall>n. is_csv n \<longrightarrow>
        loop_body p dry_run df n st = (None, st) \<and>
        files (folder (snd (fix_dates p d df dry_run))) n = files d n) \<and>
   (\<forall>n. files (folder (snd (fix_dates p d df dry_run))) n \<noteq> files d n \<longrightarrow>
        \<not> dry_run \<and> n \<in> set (listing d) \<and> \<not> is_csv n \<and>
        (\<exists>date_str. date_str_for (clock p n) df n = Inr (Some date_str)))"
proof -
  let ?r = "folder (snd (fix_dates p d df dry_run))"
  have s: "same_but_times d ?r"
  proof (cases "os_listdir d")
    case (Inl e)
    then show ?thesis by (simp add: folder_fix_dates same_but_times_refl)
  next
    case (Inr names)
    with fix_loop_same [of "start d" p dry_run df names] show ?thesis
      by (simp add: folder_fix_dates start_def)
  qed
  have c: "\<And>n. files ?r n \<noteq> files d n \<Longrightarrow>
        \<not> dry_run \<and> n \<in> set (listing d) \<and> \<not> is_csv n \<and>
        (\<exists>date_str. date_str_for (clock p n) df n = Inr (Some date_str))"
  proof -
    fix n
    assume a: "files ?r n \<noteq> files d n"
    show "\<not> dry_run \<and> n \<in> set (listing d) \<and> \<not> is_csv n \<and>
        (\<exists>date_str. date_str_for (clock p n) df n = Inr (Some date_str))"
    proof (cases "os_listdir d")
      case (Inl e)
      with a show ?thesis by (simp add: folder_fix_dates)
    next
      case (Inr names)
      with a have "files (folder (snd (fix_loop p dry_run df names (start d)))) n \<noteq>
          files (folder (start d)) n"
        by (simp add: folder_fix_dates start_def)
      from fix_loop_changes [OF this] os_listdir_Inr [OF Inr] show ?thesis by blast
    qed
  qed
  from s c show ?thesis
    by (auto simp: same_but_times_contents loop_body_csv)
qed

theorem C8_only_timestamps_of_matched_files_change_witness:
  "is_csv ''PHOTO2.CSV'' \<and>
   files (folder (snd (fix_dates utf8_platform mixed_folder
                         (pd_concat [photo1_frame, photo2_frame]) False))) ''PHOTO2.CSV'' =
     Some (csv_file (Inr photo2_frame)) \<and>
   map_option contents
     (files (folder (snd (fix_dates utf8_platform mixed_folder
                            (pd_concat [photo1_frame, photo2_frame]) False))) ''photo1.jpg'') =
     Some ''jpeg1'' \<and>
   map_option created
     (files (folder (snd (fix_dates utf8_platform mixed_folder
                            (pd_concat [photo1_frame, photo2_frame]) False))) ''photo1.jpg'') =
     Some \<lparr>year = 2023, month = 11, day = 6, hour = 9, minute = 15\<rparr>"
proof -
  have a: "is_csv ''PHOTO2.CSV''" by code_simp
  have b: "files mixed_folder ''PHOTO2.CSV'' = Some (csv_file (Inr photo2_frame))"
    by (simp add: mixed_folder_def)
  have c: "map_option contents (files mixed_folder ''photo1.jpg'') = Some ''jpeg1''"
    by (simp add: mixed_folder_def plain_file_def)
  have e: "map_option created
     (files (folder (snd (fix_dates utf8_platform mixed_folder
                            (pd_concat [photo1_frame, photo2_frame]) False))) ''photo1.jpg'') =
     Some \<lparr>year = 2023, month = 11, day = 6, hour = 9, minute = 15\<rparr>" by code_simp
  from C8_only_timestamps_of_matched_files_change
    [of mixed_folder utf8_platform "pd_concat [photo1_frame, photo2_frame]" False] a b c e
  show ?thesis by simp
qed

section \<open>A run whose every line can be printed\<close>

lemma prints_all_errors: "prints_all p \<Longrightarrow> prints_errors p"
  by (simp add: prints_all_def prints_errors_def)


lemma prints_all_info: "prints_all p \<Longrightarrow> prints_info p"
  by (simp add: prints_all_def prints_info_def)

lemma loop_body_None_errors: "prints_errors p \<Longrightarrow> fst (loop_body p dry df n st) = None"
  by (auto simp: loop_body_def print_def prints_errors_def split: prod.splits flow.splits)

lemma fix_loop_Cons_errors:
  "prints_errors p \<Longrightarrow>
   fix_loop p dry df (n # ns) st = fix_loop p dry df ns (snd (loop_body p dry df n st))"
  by (simp add: fix_loop_go loop_body_None_errors)

lemma fix_loop_None_errors: "prints_errors p \<Longrightarrow> fst (fix_loop p dry df ns st) = None"
  by (induction ns arbitrary: st) (simp_all add: fix_loop_Cons_errors)


lemma loop_body_None: "prints_all p \<Longrightarrow> fst (loop_body p dry df n st) = None"
  by (simp add: loop_body_None_errors prints_all_errors)


lemma fix_loop_None: "prints_all p \<Longrightarrow> fst (fix_loop p dry df ns st) = None"
  by (simp add: fix_loop_None_errors prints_all_errors)













lemma errored_set: "(n, e) \<in> set (concat (map errored evs)) \<longleftrightarrow> ERROR n e \<in> set evs"
proof (induction evs)
  case Nil
  show ?case by simp
next
  case (Cons ev evs)
  then show ?case by (cases ev) auto
qed




section \<open>Setting the two timestamps\<close>




section \<open>Counting\<close>











lemma loop_body_no_target:
  assumes "prints_errors p" and "targets p df [n] = []"
  shows "folder (snd (loop_body p dry df n st)) = folder st \<and>
         success (snd (loop_body p dry df n st)) = success st"
  using assms(2)
  by (simp add: loop_body_def try_block_def targets_def print_def
      split: sum.splits option.splits if_splits)









section \<open>An entry no row names\<close>

text \<open>
  C4, as amended. On a table that has the \<open>imgName\<close> and the \<open>originalCreationDate\<close>
  column, an entry that is no CSV file and whose name no row has in its \<open>imgName\<close>
  column is skipped, provided its skip line can be printed: the run prints that line
  and goes on with the folder, the success counter and the error counter as they
  were, and no exception leaves the loop.
\<close>

theorem C4_unmatched_entry_is_skipped:
  assumes "\<not> is_csv filename"
    and "''imgName'' \<in> set (columns df)" and "''originalCreationDate'' \<in> set (columns df)"
    and "\<forall>r \<in> set (rows df). cell_at r ''imgName'' \<noteq> Str filename"
    and "stdout p (SKIP filename) = None"
  shows "loop_body p dry_run df filename st = (None, st\<lparr>out := out st @ [SKIP filename]\<rparr>)"
proof -
  from assms(4) have "filter (\<lambda>r. cell_at r ''imgName'' = Str filename) (rows df) = []"
    by (simp add: filter_empty_conv)
  with assms(2,3) have "date_str_for (clock p filename) df filename = Inr None"
    by (simp add: date_str_for_def lookup_filter)
  with assms(1,5) show ?thesis
    by (simp add: loop_body_skip)
qed

theorem C4_unmatched_entry_is_skipped_witness:
  "\<not> is_csv ''other.png'' \<and>
   stdout utf8_platform (SKIP ''other.png'') = None \<and>
   loop_body utf8_platform False (pd_concat [photo1_frame, photo2_frame]) ''other.png''
       (start mixed_folder) =
     (None, \<lparr>folder = mixed_folder, success = 0, errors = 0, out = [SKIP ''other.png'']\<rparr>)"
proof -
  let ?df = "pd_concat [photo1_frame, photo2_frame]"
  have a: "\<not> is_csv ''other.png''" by code_simp
  have b: "''imgName'' \<in> set (columns ?df)" by code_simp
  have c: "''originalCreationDate'' \<in> set (columns ?df)" by code_simp
  have d: "\<forall>r \<in> set (rows ?df). cell_at r ''imgName'' \<noteq> Str ''other.png''" by code_simp
  have e: "stdout utf8_platform (SKIP ''other.png'') = None" by (simp add: utf8_platform_def)
  from C4_unmatched_entry_is_skipped [OF a b c d e, of False "start mixed_folder"] a e
  show ?thesis by (simp add: start_def)
qed

text \<open>
  C4 as stated fails in two ways. On a table that has no \<open>originalCreationDate\<close>
  column, the lookup of an entry that no row names raises \<open>KeyError\<close> before the
  test for an empty match, and the entry is counted as an error. And where the
  standard output is encoded in ASCII, the skip line of an entry with an accent in
  its name cannot be printed: \<open>print\<close> raises in the \<open>try\<close> block, then again in the
  handler, and this exception ends the run.
\<close>

theorem C4_unmatched_entry_is_an_error_counterexample:
  "\<not> is_csv ''other.png'' \<and>
   rows names_only_frame = [[(''imgName'', Str ''photo1.jpg'')]] \<and>
   fst (loop_body utf8_platform False names_only_frame ''other.png'' (start names_only_folder)) = None \<and>
   out (snd (loop_body utf8_platform False names_only_frame ''other.png'' (start names_only_folder))) =
     [ERROR ''other.png'' (KeyError ''originalCreationDate'')] \<and>
   errors (snd (loop_body utf8_platform False names_only_frame ''other.png'' (start names_only_folder))) = 1 \<and>
   \<not> is_csv cafe_jpg \<and>
   lookup photo1_frame cafe_jpg = Inr [] \<and>
   fst (loop_body ascii_platform False photo1_frame cafe_jpg (start cafe_folder)) =
     Some UnicodeEncodeError \<and>
   out (snd (loop_body ascii_platform False photo1_frame cafe_jpg (start cafe_folder))) = []"
  by code_simp

section \<open>A table without one of the two columns\<close>







section \<open>Exceptions of one entry\<close>















section \<open>The counters of a preview and of a run that writes\<close>




section \<open>What a preview reports and what a run applies\<close>






section \<open>The time the two timestamps get\<close>

text \<open>
  C7. The scenario of the claim: the folder holds \<open>photo1.jpg\<close> and a CSV file whose
  row for it has the date \<open>Sunday June 11,2023 09:15 AM GMT\<close>. The run that writes
  hands the text \<open>11.06.2023 09:15\<close> to \<open>filedate\<close> for both timestamps, prints its
  line and reports one success and no error; \<open>filedate\<close> reads the text month first,
  and both timestamps of the photo end at 6 November 2023, 09:15, not at 11 June.
\<close>

theorem C7_both_timestamps_get_day_and_month_swapped:
  "date_str_for noon photo1_frame ''photo1.jpg'' = Inr (Some ''11.06.2023 09:15'') \<and>
   fst (fix_dates utf8_platform photo1_folder photo1_frame False) = None \<and>
   out (snd (fix_dates utf8_platform photo1_folder photo1_frame False)) =
     [OK ''photo1.jpg'' ''11.06.2023 09:15'', DONE 1 0] \<and>
   files (folder (snd (fix_dates utf8_platform photo1_folder photo1_frame False))) ''photo1.jpg'' =
     Some ((plain_file ''jpeg'')
       \<lparr>created := \<lparr>year = 2023, month = 11, day = 6, hour = 9, minute = 15\<rparr>,
        modified := \<lparr>year = 2023, month = 11, day = 6, hour = 9, minute = 15\<rparr>\<rparr>)"
  by code_simp

section \<open>When the run stops before the loop\<close>






end
